theory Spec2Isabelle
  imports Complex_Main "HOL-Library.Multiset" "HOL-Library.Product_Lexorder"
begin


section \<open>Strings\<close>

text \<open>
  Python strings are modelled as \<^typ>\<open>string\<close>, one \<^typ>\<open>char\<close> per code point, for
  text in the ASCII range: \<open>str.lower\<close> changes the letters \<open>A\<close> to \<open>Z\<close> only and
  \<open>str.strip\<close> removes the ASCII characters for which \<open>str.isspace\<close> holds
  (codes 9 to 13, 28 to 31 and 32). Case mappings and white space beyond code 127 are outside
  the model.
\<close>

definition lower_char :: "char \<Rightarrow> char" where
  "lower_char c =
     (let n = (of_char c :: nat) in if 65 \<le> n \<and> n \<le> 90 then char_of (n + 32) else c)"

definition lower :: "string \<Rightarrow> string" where
  "lower s = map lower_char s"

definition isspace :: "char \<Rightarrow> bool" where
  "isspace c = ((of_char c :: nat) \<in> {9, 10, 11, 12, 13, 28, 29, 30, 31, 32})"

definition strip :: "string \<Rightarrow> string" where
  "strip s = rev (dropWhile isspace (rev (dropWhile isspace s)))"

section \<open>Ingredient normalization\<close>

definition INGREDIENT_MAP :: "(string \<times> string) list" where
  "INGREDIENT_MAP =
     [(''bell pepper'', ''capsicum''),
      (''green chilli'', ''chilli''),
      (''red chilli'', ''chilli''),
      (''scallion'', ''onion''),
      (''spring onion'', ''onion''),
      (''coriander leaves'', ''coriander''),
      (''cilantro'', ''coriander''),
      (''eggplant'', ''brinjal'')]"

text \<open>\<open>dict.get(k, d)\<close> on a dictionary written as an association list.\<close>

definition dict_get :: "('k \<times> 'v) list \<Rightarrow> 'k \<Rightarrow> 'v \<Rightarrow> 'v" where
  "dict_get d k dflt = (case map_of d k of None \<Rightarrow> dflt | Some v \<Rightarrow> v)"

text \<open>The body of the loop of \<open>normalize_ingredients\<close>, for one entry.\<close>

definition normalize_one :: "string \<Rightarrow> string" where
  "normalize_one ing = (let ing = strip (lower ing) in dict_get INGREDIENT_MAP ing ing)"

text \<open>
  A Python \<open>set\<close> is modelled as a list without duplicates. Python enumerates a set in an
  order that depends on the hashes of its elements; the model fixes one order (that of
  \<^const>\<open>remdups\<close>), and every statement about a set value below speaks of the \<^const>\<open>set\<close>
  of the list, its length or its distinctness, never of the order.
\<close>

definition py_set :: "'a list \<Rightarrow> 'a list" where
  "py_set xs = remdups xs"

definition set_inter :: "'a list \<Rightarrow> 'a list \<Rightarrow> 'a list" where
  "set_inter a b = filter (\<lambda>x. x \<in> set b) a"

definition set_diff :: "'a list \<Rightarrow> 'a list \<Rightarrow> 'a list" where
  "set_diff a b = filter (\<lambda>x. x \<notin> set b) a"

fun normalize_loop :: "string list \<Rightarrow> string list \<Rightarrow> string list" where
  "normalize_loop normalized [] = normalized"
| "normalize_loop normalized (ing # ingredients) =
     normalize_loop (normalized @ [normalize_one ing]) ingredients"

definition normalize_ingredients :: "string list \<Rightarrow> string list" where
  "normalize_ingredients ingredients = py_set (normalize_loop [] ingredients)"

section \<open>The recipe catalog\<close>

text \<open>
  A step of a recipe is a JSON value: a dictionary with the optional keys \<open>text\<close> and
  \<open>time\<close>, or something else (a plain string in the data this application reads).
\<close>

datatype step_entry =
  StepDict (s_text: "string option") (s_time: "int option")
| StepOther string

text \<open>
  A recipe is a dictionary read from \<open>recipes.json\<close>; every key may be missing
  (\<^const>\<open>None\<close>). Values have the type the catalog schema gives them; a key holding
  \<open>null\<close> or a value of another type is outside the model. The file is not part of the
  sources, so the catalog \<open>RECIPE_DB\<close> is a parameter of every function that reads it.
\<close>

record recipe =
  r_name :: "string option"
  r_ingredients :: "string list option"
  r_preview :: "string option"
  r_difficulty :: "string option"
  r_time :: "int option"
  r_calories :: "int option"
  r_steps :: "step_entry list option"

text \<open>\<open>d.get(key, default)\<close> and \<open>d.get(key)\<close> on an optional field.\<close>

definition get_or :: "'a option \<Rightarrow> 'a \<Rightarrow> 'a" where
  "get_or field dflt = (case field of None \<Rightarrow> dflt | Some v \<Rightarrow> v)"

text \<open>\<open>set(normalize_ingredients(recipe.get("ingredients", [])))\<close>, as both matchers compute it.\<close>

definition recipe_set_of :: "recipe \<Rightarrow> string list" where
  "recipe_set_of recipe = py_set (normalize_ingredients (get_or (r_ingredients recipe) []))"

definition recipe_score :: "string list \<Rightarrow> recipe \<Rightarrow> nat" where
  "recipe_score user_set recipe = length (set_inter (recipe_set_of recipe) user_set)"

section \<open>Best single match\<close>

fun find_best_loop :: "string list \<Rightarrow> recipe option \<Rightarrow> nat \<Rightarrow> recipe list \<Rightarrow> recipe option" where
  "find_best_loop user_set best_recipe best_score [] = best_recipe"
| "find_best_loop user_set best_recipe best_score (recipe # rest) =
     (let recipe_set = recipe_set_of recipe;
          score = length (set_inter recipe_set user_set)
      in if score > best_score
         then find_best_loop user_set (Some recipe) score rest
         else find_best_loop user_set best_recipe best_score rest)"

definition find_best_recipe :: "recipe list \<Rightarrow> string list \<Rightarrow> recipe option" where
  "find_best_recipe RECIPE_DB user_ingredients =
     find_best_loop (py_set user_ingredients) None 0 RECIPE_DB"

text \<open>Recipes used as concrete inputs.\<close>

definition mk_recipe :: "string \<Rightarrow> string list \<Rightarrow> recipe" where
  "mk_recipe n ings =
     \<lparr>r_name = Some n, r_ingredients = Some ings, r_preview = None, r_difficulty = None,
      r_time = None, r_calories = None, r_steps = None\<rparr>"

section \<open>Full ranked matching\<close>

definition difficulty_rank :: "(string \<times> nat) list" where
  "difficulty_rank = [(''Easy'', 0), (''Medium'', 1), (''Hard'', 2)]"

text \<open>The dictionary appended to \<open>matches\<close> for a recipe that qualifies.\<close>

record candidate =
  c_name :: "string option"
  c_preview :: string
  c_difficulty :: "string option"
  c_time :: "int option"
  c_calories :: "int option"
  c_missing :: "string list"
  c_missing_count :: nat
  c_difficulty_rank :: nat

text \<open>
  The quotient \<open>len(common) / len(recipe_set)\<close> is a float in the source and a real number
  here. The test it enters is a conjunction with \<open>len(missing) <= 1\<close>, and under that
  conjunct the quotient is \<open>1\<close> or \<open>(n - 1) / n\<close> for the size \<open>n\<close> of the recipe set,
  which is \<open>0\<close>, \<open>0.5\<close> or at least \<open>2/3\<close>: never within rounding distance of \<open>0.6\<close>.
  So the conjunction has the same truth value in both readings.
\<close>

fun find_all_loop :: "string list \<Rightarrow> candidate list \<Rightarrow> recipe list \<Rightarrow> candidate list" where
  "find_all_loop user_set matches [] = matches"
| "find_all_loop user_set matches (recipe # rest) =
     (let recipe_set = recipe_set_of recipe;
          common = set_inter recipe_set user_set;
          missing = set_diff recipe_set user_set
      in if length recipe_set = 0 then find_all_loop user_set matches rest
         else
           let match_ratio = real (length common) / real (length recipe_set)
           in if match_ratio \<ge> 0.6 \<and> length missing \<le> 1
              then find_all_loop user_set
                     (matches @
                       [\<lparr>c_name = r_name recipe,
                         c_preview = get_or (r_preview recipe) [],
                         c_difficulty = r_difficulty recipe,
                         c_time = r_time recipe,
                         c_calories = r_calories recipe,
                         c_missing = missing,
                         c_missing_count = length missing,
                         c_difficulty_rank =
                           (case r_difficulty recipe of
                              None \<Rightarrow> 3
                            | Some d \<Rightarrow> dict_get difficulty_rank d 3)\<rparr>])
                     rest
              else find_all_loop user_set matches rest)"

text \<open>
  The key of \<open>matches.sort\<close>: \<open>x["time"] or 999\<close> is 999 for an absent time and for the
  time 0. Python compares the tuples lexicographically, as the order on products does here,
  and its sort is stable, as \<^const>\<open>sort_key\<close> is.
\<close>

definition sort_key_of :: "candidate \<Rightarrow> nat \<times> nat \<times> int" where
  "sort_key_of x =
     (c_missing_count x, c_difficulty_rank x,
      (case c_time x of None \<Rightarrow> 999 | Some t \<Rightarrow> if t = 0 then 999 else t))"

definition find_all_possible_recipes :: "recipe list \<Rightarrow> string list \<Rightarrow> candidate list" where
  "find_all_possible_recipes RECIPE_DB user_ingredients =
     (let user_set = py_set (normalize_ingredients user_ingredients);
          matches = find_all_loop user_set [] RECIPE_DB
      in sort_key sort_key_of matches)"

text \<open>
  The inclusion rule as the specification words it, on the two sets of canonical tokens:
  the recipe set is not empty, the match ratio is at least 0.6 and at most one ingredient is
  missing.
\<close>

definition spec_included :: "string set \<Rightarrow> string set \<Rightarrow> bool" where
  "spec_included user_tokens recipe_tokens =
     (recipe_tokens \<noteq> {}
      \<and> real (card (recipe_tokens \<inter> user_tokens)) / real (card recipe_tokens) \<ge> 0.6
      \<and> card (recipe_tokens - user_tokens) \<le> 1)"

text \<open>The candidate built from a recipe, for stating what the loop appends.\<close>

definition candidate_of :: "string list \<Rightarrow> recipe \<Rightarrow> candidate" where
  "candidate_of user_set recipe =
     \<lparr>c_name = r_name recipe,
      c_preview = (case r_preview recipe of None \<Rightarrow> [] | Some p \<Rightarrow> p),
      c_difficulty = r_difficulty recipe,
      c_time = r_time recipe,
      c_calories = r_calories recipe,
      c_missing = set_diff (recipe_set_of recipe) user_set,
      c_missing_count = length (set_diff (recipe_set_of recipe) user_set),
      c_difficulty_rank =
        (if r_difficulty recipe = Some ''Easy'' then 0
         else if r_difficulty recipe = Some ''Medium'' then 1
         else if r_difficulty recipe = Some ''Hard'' then 2
         else 3)\<rparr>"

section \<open>Dish options\<close>

record dish_request =
  q_ingredients :: "string list option"

text \<open>The synthetic dish, whose dictionary has other keys than a candidate's.\<close>

record generated_dish =
  g_name :: string
  g_difficulty :: string
  g_time :: int
  g_calories :: int
  g_missing :: "string list"
  g_ai_generated :: bool

datatype dish = Candidate candidate | Generated generated_dish

record dish_options =
  count :: nat
  dishes :: "dish list"

definition get_dish_options :: "recipe list \<Rightarrow> dish_request \<Rightarrow> dish_options" where
  "get_dish_options RECIPE_DB data =
     (let ingredients = normalize_ingredients (get_or (q_ingredients data) []);
          dishes = map Candidate (find_all_possible_recipes RECIPE_DB ingredients);
          dishes =
            (if dishes = []
             then [Generated
                     \<lparr>g_name = ''Quick Kitchen Stir Fry'',
                      g_difficulty = ''Easy'',
                      g_time = 15,
                      g_calories = 250,
                      g_missing = [],
                      g_ai_generated = True\<rparr>]
             else dishes)
      in \<lparr>count = length dishes, dishes = dishes\<rparr>)"

text \<open>Recipes with a difficulty and a time, used as concrete inputs.\<close>

definition mk_timed_recipe :: "string \<Rightarrow> string list \<Rightarrow> string option \<Rightarrow> int option \<Rightarrow> recipe" where
  "mk_timed_recipe n ings d t =
     \<lparr>r_name = Some n, r_ingredients = Some ings, r_preview = None, r_difficulty = d,
      r_time = t, r_calories = None, r_steps = None\<rparr>"

section \<open>Recipe assembly\<close>

record recipe_request =
  rq_ingredients :: "string list option"
  rq_selected_dish :: "string option"

record timed_step =
  ts_description :: "string option"
  ts_time :: int

record recipe_response =
  rs_name :: "string option"
  rs_ingredients :: "string list option"
  rs_calories :: "int option"
  rs_difficulty :: "string option"
  rs_steps :: "timed_step list"
  rs_total_time :: int

text \<open>A dictionary without keys, which Python's \<open>not recipe\<close> treats like \<open>None\<close>.\<close>

definition empty_dict :: recipe where
  "empty_dict =
     \<lparr>r_name = None, r_ingredients = None, r_preview = None, r_difficulty = None,
      r_time = None, r_calories = None, r_steps = None\<rparr>"

text \<open>
  The first half of \<open>generate_recipe\<close>: the recipe to assemble. A selected dish that is
  absent, \<open>null\<close> or the empty string is falsy; \<open>next(..., None)\<close> is \<^const>\<open>find\<close>.
\<close>

definition resolve_recipe :: "recipe list \<Rightarrow> recipe_request \<Rightarrow> recipe" where
  "resolve_recipe RECIPE_DB data =
     (let ingredients = normalize_ingredients (get_or (rq_ingredients data) []);
          selected_dish = rq_selected_dish data;
          recipe =
            (if selected_dish \<noteq> None \<and> selected_dish \<noteq> Some []
             then find (\<lambda>r. lower (strip (get_or (r_name r) []))
                             = lower (strip (get_or selected_dish [])))
                    RECIPE_DB
             else find_best_recipe RECIPE_DB ingredients)
      in if recipe = None \<or> recipe = Some empty_dict
         then \<lparr>r_name = Some ''Custom Dish'',
               r_ingredients = Some ingredients,
               r_preview = None,
               r_difficulty = Some ''Easy'',
               r_time = None,
               r_calories = Some 220,
               r_steps = Some [StepDict (Some ''Cook everything well'') (Some 10)]\<rparr>
         else get_or recipe empty_dict)"

fun timed_steps_loop :: "timed_step list \<Rightarrow> step_entry list \<Rightarrow> timed_step list" where
  "timed_steps_loop timed_steps [] = timed_steps"
| "timed_steps_loop timed_steps (StepDict text time # rest) =
     timed_steps_loop
       (timed_steps @ [\<lparr>ts_description = text, ts_time = get_or time 5\<rparr>]) rest"
| "timed_steps_loop timed_steps (StepOther other # rest) =
     timed_steps_loop timed_steps rest"

definition generate_recipe :: "recipe list \<Rightarrow> recipe_request \<Rightarrow> recipe_response" where
  "generate_recipe RECIPE_DB data =
     (let recipe = resolve_recipe RECIPE_DB data;
          timed_steps = timed_steps_loop [] (get_or (r_steps recipe) [])
      in \<lparr>rs_name = r_name recipe,
          rs_ingredients = r_ingredients recipe,
          rs_calories = r_calories recipe,
          rs_difficulty = r_difficulty recipe,
          rs_steps = timed_steps,
          rs_total_time = sum_list (map ts_time timed_steps)\<rparr>)"

text \<open>A recipe with steps, used as a concrete input.\<close>

definition mk_stepped_recipe :: "string \<Rightarrow> string list \<Rightarrow> step_entry list \<Rightarrow> recipe" where
  "mk_stepped_recipe n ings sts =
     \<lparr>r_name = Some n, r_ingredients = Some ings, r_preview = None, r_difficulty = None,
      r_time = None, r_calories = None, r_steps = Some sts\<rparr>"

section \<open>Python exceptions\<close>

datatype py_error = IndexError | ValueError | TypeError

section \<open>Cooking memories and the session\<close>

text \<open>
  A memory as \<open>save_memory\<close> stores it: the calories are the text of a form field or
  \<open>None\<close>, the ingredients a decoded list or \<open>None\<close>, the timestamp a text or \<open>None\<close>.
\<close>

record memory =
  mem_name :: "string option"
  mem_calories :: "string option"
  mem_ingredients :: "string list option"
  mem_image :: string
  mem_note :: "string option"
  mem_cooked_at :: "string option"

text \<open>The keys of the session that the handlers read; \<^const>\<open>None\<close> is a missing key.\<close>

record session =
  user_id :: "nat option"
  memories :: "memory list option"

section \<open>Deleting a memory\<close>

fun pop_at :: "nat \<Rightarrow> 'a list \<Rightarrow> 'a list" where
  "pop_at k [] = []"
| "pop_at 0 (x # xs) = xs"
| "pop_at (Suc k) (x # xs) = x # pop_at k xs"

text \<open>\<open>list.pop(i)\<close>: a negative index counts from the end, an index out of range raises.\<close>

definition list_pop :: "'a list \<Rightarrow> int \<Rightarrow> py_error + 'a list" where
  "list_pop xs i =
     (let n = int (length xs); j = (if i < 0 then i + n else i)
      in if 0 \<le> j \<and> j < n then Inr (pop_at (nat j) xs) else Inl IndexError)"

datatype delete_response = Unauthorized | Deleted

definition delete_memory :: "session \<Rightarrow> int \<Rightarrow> py_error + (delete_response \<times> session)" where
  "delete_memory sess index =
     (if user_id sess = None then Inr (Unauthorized, sess)
      else
        let mems = get_or (memories sess) []
        in if 0 \<le> index \<and> index < int (length mems)
           then (case list_pop mems (int (length mems) - 1 - index) of
                   Inl e \<Rightarrow> Inl e
                 | Inr mems' \<Rightarrow> Inr (Deleted, sess\<lparr>memories := Some mems'\<rparr>))
           else Inr (Deleted, sess\<lparr>memories := Some mems\<rparr>))"

text \<open>A memory used as a concrete input.\<close>

definition mk_memory :: "string \<Rightarrow> string option \<Rightarrow> string list option \<Rightarrow> string option \<Rightarrow> memory" where
  "mk_memory n cal ings cooked =
     \<lparr>mem_name = Some n, mem_calories = cal, mem_ingredients = ings,
      mem_image = ''/static/uploads/x.png'', mem_note = None, mem_cooked_at = cooked\<rparr>"

section \<open>Reading numbers and timestamps\<close>

definition isdigit :: "char \<Rightarrow> bool" where
  "isdigit c = (48 \<le> (of_char c :: nat) \<and> (of_char c :: nat) \<le> 57)"

definition digit_value :: "char \<Rightarrow> nat" where
  "digit_value c = of_char c - 48"

text \<open>
  \<open>int(text)\<close> on a string: white space around the number is ignored, one sign may precede
  the digits, and single underscores may stand between digits; anything else raises
  \<open>ValueError\<close>. (The limit on the number of digits of recent Python versions is not
  modelled.)
\<close>

fun digits_ok :: "string \<Rightarrow> bool" where
  "digits_ok [] = False"
| "digits_ok [c] = isdigit c"
| "digits_ok (c # d # rest) =
     (isdigit c \<and> (if d = CHR ''_'' then digits_ok rest else digits_ok (d # rest)))"

definition py_int :: "string \<Rightarrow> py_error + int" where
  "py_int text =
     (let s = strip text;
          negative = (case s of [] \<Rightarrow> False | c # rest \<Rightarrow> c = CHR ''-'');
          body = (case s of [] \<Rightarrow> []
                  | c # rest \<Rightarrow> if c = CHR ''-'' \<or> c = CHR ''+'' then rest else s)
      in if digits_ok body
         then Inr ((if negative then - 1 else 1)
                   * int (foldl (\<lambda>a c. 10 * a + digit_value c) 0 (filter isdigit body)))
         else Inl ValueError)"

text \<open>The fields of a \<open>datetime\<close> that the format \<open>%d %b %Y, %I:%M %p\<close> fills.\<close>

record datetime =
  dt_year :: nat
  dt_month :: nat
  dt_day :: nat
  dt_hour :: nat
  dt_minute :: nat

definition is_leap :: "nat \<Rightarrow> bool" where
  "is_leap y = (y mod 4 = 0 \<and> (y mod 100 \<noteq> 0 \<or> y mod 400 = 0))"

definition days_in_month :: "nat \<Rightarrow> nat \<Rightarrow> nat" where
  "days_in_month y m =
     (if m = 2 \<and> is_leap y then 29
      else [31, 28, 31, 30, 31, 30, 31, 31, 30, 31, 30, 31] ! (m - 1))"

definition days_before_year :: "nat \<Rightarrow> nat" where
  "days_before_year y = (let y1 = y - 1 in y1 * 365 + y1 div 4 - y1 div 100 + y1 div 400)"

text \<open>The days of the year before a month, from the table \<open>_DAYS_BEFORE_MONTH\<close> of
  the \<open>datetime\<close> module, with one day more after February of a leap year.\<close>

definition days_before_month :: "nat \<Rightarrow> nat \<Rightarrow> nat" where
  "days_before_month y m =
     [0, 0, 31, 59, 90, 120, 151, 181, 212, 243, 273, 304, 334] ! m
     + (if 2 < m \<and> is_leap y then 1 else 0)"

definition toordinal :: "datetime \<Rightarrow> nat" where
  "toordinal dt =
     days_before_year (dt_year dt) + days_before_month (dt_year dt) (dt_month dt) + dt_day dt"

text \<open>\<open>datetime.weekday()\<close>: Monday is 0.\<close>

definition weekday :: "datetime \<Rightarrow> nat" where
  "weekday dt = (toordinal dt + 6) mod 7"

text \<open>
  \<open>datetime.strptime\<close> turns the format into the regular expression
  \<open>(3[0-1]|[1-2]\d|0[1-9]|[1-9]| [1-9])\s+(jan|...|dec)\s+(\d\d\d\d),\s+(1[0-2]|0[1-9]|[1-9]):([0-5]\d|\d)\s+(am|pm)\<close>,
  matched without case at the start of the text (month and half-day names of the C locale).
  Each piece below returns its possible matches in the order the backtracking matcher tries
  them, as a value with the remaining text.
\<close>

definition re_d :: "string \<Rightarrow> (nat \<times> string) list" where
  "re_d s =
     (case s of
        [] \<Rightarrow> []
      | [c1] \<Rightarrow> if isdigit c1 \<and> c1 \<noteq> CHR ''0'' then [(digit_value c1, [])] else []
      | c1 # c2 # rest \<Rightarrow>
          (if c1 = CHR ''3'' \<and> (c2 = CHR ''0'' \<or> c2 = CHR ''1'')
           then [(30 + digit_value c2, rest)] else [])
          @ (if (c1 = CHR ''1'' \<or> c1 = CHR ''2'') \<and> isdigit c2
             then [(10 * digit_value c1 + digit_value c2, rest)] else [])
          @ (if c1 = CHR ''0'' \<and> isdigit c2 \<and> c2 \<noteq> CHR ''0''
             then [(digit_value c2, rest)] else [])
          @ (if isdigit c1 \<and> c1 \<noteq> CHR ''0'' then [(digit_value c1, c2 # rest)] else [])
          @ (if c1 = CHR '' '' \<and> isdigit c2 \<and> c2 \<noteq> CHR ''0''
             then [(digit_value c2, rest)] else []))"

definition re_space :: "string \<Rightarrow> string list" where
  "re_space s = map (\<lambda>k. drop k s) (rev [1..<Suc (length (takeWhile isspace s))])"

definition month_names :: "string list" where
  "month_names =
     [''jan'', ''feb'', ''mar'', ''apr'', ''may'', ''jun'',
      ''jul'', ''aug'', ''sep'', ''oct'', ''nov'', ''dec'']"

definition re_b :: "string \<Rightarrow> (nat \<times> string) list" where
  "re_b s =
     (case map_of (zip month_names [1..<13]) (lower (take 3 s)) of
        None \<Rightarrow> []
      | Some m \<Rightarrow> [(m, drop 3 s)])"

definition re_Y :: "string \<Rightarrow> (nat \<times> string) list" where
  "re_Y s =
     (if 4 \<le> length s \<and> list_all isdigit (take 4 s)
      then [(foldl (\<lambda>a c. 10 * a + digit_value c) 0 (take 4 s), drop 4 s)]
      else [])"

definition re_lit :: "char \<Rightarrow> string \<Rightarrow> string list" where
  "re_lit c s = (case s of [] \<Rightarrow> [] | c' # rest \<Rightarrow> if c' = c then [rest] else [])"

definition re_I :: "string \<Rightarrow> (nat \<times> string) list" where
  "re_I s =
     (case s of
        [] \<Rightarrow> []
      | [c1] \<Rightarrow> if isdigit c1 \<and> c1 \<noteq> CHR ''0'' then [(digit_value c1, [])] else []
      | c1 # c2 # rest \<Rightarrow>
          (if c1 = CHR ''1'' \<and> (c2 = CHR ''0'' \<or> c2 = CHR ''1'' \<or> c2 = CHR ''2'')
           then [(10 + digit_value c2, rest)] else [])
          @ (if c1 = CHR ''0'' \<and> isdigit c2 \<and> c2 \<noteq> CHR ''0''
             then [(digit_value c2, rest)] else [])
          @ (if isdigit c1 \<and> c1 \<noteq> CHR ''0'' then [(digit_value c1, c2 # rest)] else []))"

definition re_M :: "string \<Rightarrow> (nat \<times> string) list" where
  "re_M s =
     (case s of
        [] \<Rightarrow> []
      | [c1] \<Rightarrow> if isdigit c1 then [(digit_value c1, [])] else []
      | c1 # c2 # rest \<Rightarrow>
          (if isdigit c1 \<and> digit_value c1 \<le> 5 \<and> isdigit c2
           then [(10 * digit_value c1 + digit_value c2, rest)] else [])
          @ (if isdigit c1 then [(digit_value c1, c2 # rest)] else []))"

definition re_p :: "string \<Rightarrow> (bool \<times> string) list" where
  "re_p s =
     (if lower (take 2 s) = ''am'' then [(False, drop 2 s)]
      else if lower (take 2 s) = ''pm'' then [(True, drop 2 s)]
      else [])"

definition strptime_matches :: "string \<Rightarrow> ((nat \<times> nat \<times> nat \<times> nat \<times> nat \<times> bool) \<times> string) list" where
  "strptime_matches s =
     [((d, b, y, i, m, p), s12).
        (d, s1) \<leftarrow> re_d s, s2 \<leftarrow> re_space s1,
        (b, s3) \<leftarrow> re_b s2, s4 \<leftarrow> re_space s3,
        (y, s5) \<leftarrow> re_Y s4, s6 \<leftarrow> re_lit CHR '','' s5, s7 \<leftarrow> re_space s6,
        (i, s8) \<leftarrow> re_I s7, s9 \<leftarrow> re_lit CHR '':'' s8,
        (m, s10) \<leftarrow> re_M s9, s11 \<leftarrow> re_space s10,
        (p, s12) \<leftarrow> re_p s11]"

text \<open>
  The first match counts; text left over after it, no match, the year 0 and a day beyond the
  end of the month all raise \<open>ValueError\<close>.
\<close>

definition strptime :: "string \<Rightarrow> py_error + datetime" where
  "strptime data_string =
     (case strptime_matches data_string of
        [] \<Rightarrow> Inl ValueError
      | ((d, b, y, i, m, p), rest) # others \<Rightarrow>
          if rest \<noteq> [] then Inl ValueError
          else if y < 1 \<or> days_in_month y b < d then Inl ValueError
          else Inr \<lparr>dt_year = y, dt_month = b, dt_day = d,
                    dt_hour = (if p then (if i = 12 then 12 else i + 12)
                               else (if i = 12 then 0 else i)),
                    dt_minute = m\<rparr>)"

section \<open>Analytics\<close>

text \<open>
  A \<open>Counter\<close> keeps its keys in the order of their first insertion; it is an association
  list here. \<open>most_common(1)\<close> takes the first entry of maximal count.
\<close>

fun counter_increment :: "(string \<times> nat) list \<Rightarrow> string \<Rightarrow> (string \<times> nat) list" where
  "counter_increment [] ing = [(ing, 1)]"
| "counter_increment ((k, n) # rest) ing =
     (if k = ing then (k, n + 1) # rest else (k, n) # counter_increment rest ing)"

fun most_common_loop :: "(string \<times> nat) \<Rightarrow> (string \<times> nat) list \<Rightarrow> (string \<times> nat)" where
  "most_common_loop best [] = best"
| "most_common_loop best (item # rest) =
     (if snd item > snd best then most_common_loop item rest else most_common_loop best rest)"

definition most_common_1 :: "(string \<times> nat) list \<Rightarrow> (string \<times> nat) list" where
  "most_common_1 counter =
     (case counter of [] \<Rightarrow> [] | item # rest \<Rightarrow> [most_common_loop item rest])"

record analytics_state =
  total_calories :: int
  ingredient_counter :: "(string \<times> nat) list"
  weekly_calories :: "int list"

text \<open>
  The loop over the memories. The coercion of the calories sits in a \<open>try\<close> with a bare
  \<open>except\<close>, so a missing or unreadable value counts 0. The call of \<open>strptime\<close> and the
  iteration over the ingredients sit in no \<open>try\<close>: an exception there leaves the loop and
  the handler.
\<close>

fun analytics_loop :: "analytics_state \<Rightarrow> memory list \<Rightarrow> py_error + analytics_state" where
  "analytics_loop st [] = Inr st"
| "analytics_loop st (mem # rest) =
     (let cal = (case mem_calories mem of
                   None \<Rightarrow> 0
                 | Some text \<Rightarrow> (case py_int text of Inl e \<Rightarrow> 0 | Inr v \<Rightarrow> v));
          total = total_calories st + cal;
          cooked_time = mem_cooked_at mem
      in case (if cooked_time \<noteq> None \<and> cooked_time \<noteq> Some []
               then (case strptime (get_or cooked_time []) of
                       Inl e \<Rightarrow> Inl e
                     | Inr dt \<Rightarrow>
                         Inr ((weekly_calories st)
                                [weekday dt := weekly_calories st ! weekday dt + cal]))
               else Inr (weekly_calories st)) of
           Inl e \<Rightarrow> Inl e
         | Inr weekly \<Rightarrow>
             (case mem_ingredients mem of
                None \<Rightarrow> Inl TypeError
              | Some ingredients \<Rightarrow>
                  analytics_loop
                    \<lparr>total_calories = total,
                     ingredient_counter =
                       foldl counter_increment (ingredient_counter st) ingredients,
                     weekly_calories = weekly\<rparr>
                    rest))"

record analytics_summary =
  totalCalories :: int
  totalRecipes :: nat
  topIngredient :: string
  weeklyCalories :: "int list"
  ingredientLabels :: "string list"
  ingredientCounts :: "nat list"

definition analytics_data :: "session \<Rightarrow> py_error + analytics_summary" where
  "analytics_data sess =
     (case memories sess of
        None \<Rightarrow>
          Inr \<lparr>totalCalories = 0, totalRecipes = 0, topIngredient = ''-'',
               weeklyCalories = replicate 7 0, ingredientLabels = [],
               ingredientCounts = []\<rparr>
      | Some mems \<Rightarrow>
          (case analytics_loop
                  \<lparr>total_calories = 0, ingredient_counter = [],
                   weekly_calories = replicate 7 0\<rparr> mems of
             Inl e \<Rightarrow> Inl e
           | Inr st \<Rightarrow>
               Inr \<lparr>totalCalories = total_calories st,
                    totalRecipes = length mems,
                    topIngredient =
                      (case most_common_1 (ingredient_counter st) of
                         [] \<Rightarrow> ''-''
                       | entry # others \<Rightarrow> fst entry),
                    weeklyCalories = weekly_calories st,
                    ingredientLabels = map fst (ingredient_counter st),
                    ingredientCounts = map snd (ingredient_counter st)\<rparr>))"

section \<open>Properties of normalization\<close>

lemma of_char_lower_char:
  "(of_char (lower_char c) :: nat) =
     (if 65 \<le> (of_char c :: nat) \<and> (of_char c :: nat) \<le> 90 then of_char c + 32 else of_char c)"
  by (simp add: lower_char_def Let_def)

lemma lower_char_other:
  "\<not> (65 \<le> (of_char d :: nat) \<and> (of_char d :: nat) \<le> 90) \<Longrightarrow> lower_char d = d"
  by (auto simp: lower_char_def Let_def)

lemma lower_char_idem: "lower_char (lower_char c) = lower_char c"
proof (rule lower_char_other)
  show "\<not> (65 \<le> (of_char (lower_char c) :: nat) \<and> (of_char (lower_char c) :: nat) \<le> 90)"
    unfolding of_char_lower_char by auto
qed

lemma isspace_lower_char: "isspace (lower_char c) = isspace c"
  unfolding isspace_def of_char_lower_char by auto

lemma lower_idem: "lower (lower s) = lower s"
  by (simp add: lower_def lower_char_idem)

lemma dropWhile_isspace_lower:
  "dropWhile isspace (lower s) = lower (dropWhile isspace s)"
  by (induction s) (simp_all add: lower_def isspace_lower_char)

lemma lower_rev: "lower (rev s) = rev (lower s)"
  by (simp add: lower_def rev_map)

lemma lower_strip: "lower (strip s) = strip (lower s)"
  by (simp add: strip_def dropWhile_isspace_lower lower_rev [symmetric])

lemma dropWhile_rev_dropWhile:
  "dropWhile P (rev (dropWhile Q (rev (dropWhile P s)))) = rev (dropWhile Q (rev (dropWhile P s)))"
proof (cases "dropWhile Q (rev (dropWhile P s))")
  case Nil
  show ?thesis unfolding Nil by simp
next
  case (Cons y ys)
  define t where "t = dropWhile P s"
  have ne: "dropWhile Q (rev t) \<noteq> []" unfolding t_def Cons by simp
  then have "t \<noteq> []" by (cases t) simp_all
  then have "\<not> P (hd t)" unfolding t_def by (simp add: hd_dropWhile)
  moreover have "rev (dropWhile Q (rev t)) \<noteq> []" using ne by simp
  moreover have "\<exists>zs. t = rev (dropWhile Q (rev t)) @ zs"
  proof -
    have "rev t = takeWhile Q (rev t) @ dropWhile Q (rev t)" by simp
    then have "t = rev (dropWhile Q (rev t)) @ rev (takeWhile Q (rev t))"
      by (metis rev_append rev_rev_ident)
    then show ?thesis by blast
  qed
  ultimately have "\<not> P (hd (rev (dropWhile Q (rev t))))"
    by (metis hd_append2)
  then show ?thesis
    unfolding t_def [symmetric] using \<open>rev (dropWhile Q (rev t)) \<noteq> []\<close>
    by (cases "rev (dropWhile Q (rev t))") simp_all
qed

lemma strip_idem: "strip (strip s) = strip s"
  by (simp add: strip_def dropWhile_rev_dropWhile)

lemma normalize_one_values:
  "normalize_one ''capsicum'' = ''capsicum''"
  "normalize_one ''chilli'' = ''chilli''"
  "normalize_one ''onion'' = ''onion''"
  "normalize_one ''coriander'' = ''coriander''"
  "normalize_one ''brinjal'' = ''brinjal''"
  by (simp_all add: normalize_one_def strip_def lower_def lower_char_def isspace_def
      dict_get_def INGREDIENT_MAP_def Let_def)

lemma normalize_one_idem: "normalize_one (normalize_one s) = normalize_one s"
proof (cases "map_of INGREDIENT_MAP (strip (lower s))")
  case None
  then have eq: "normalize_one s = strip (lower s)"
    by (simp add: normalize_one_def dict_get_def Let_def)
  have "strip (lower (strip (lower s))) = strip (lower s)"
    by (simp add: lower_strip lower_idem strip_idem)
  with None show ?thesis
    unfolding eq by (simp add: normalize_one_def dict_get_def Let_def)
next
  case (Some v)
  then have eq: "normalize_one s = v"
    by (simp add: normalize_one_def dict_get_def Let_def)
  from Some have "v \<in> {''capsicum'', ''chilli'', ''onion'', ''coriander'', ''brinjal''}"
    by (auto simp: INGREDIENT_MAP_def split: if_splits)
  then show ?thesis
    unfolding eq using normalize_one_values by auto
qed

lemma normalize_loop_eq: "normalize_loop acc xs = acc @ map normalize_one xs"
  by (induction xs arbitrary: acc) simp_all

lemma set_normalize_ingredients:
  "set (normalize_ingredients xs) = normalize_one ` set xs"
  by (simp add: normalize_ingredients_def py_set_def normalize_loop_eq)

lemma distinct_normalize_ingredients: "distinct (normalize_ingredients xs)"
  by (simp add: normalize_ingredients_def py_set_def)

text \<open>
  Claim C6. Normalization, read as producing a set of canonical tokens, is idempotent, does
  not depend on the order or the multiplicity of the entries of the raw list, yields no
  token twice, and sends every entry to the synonym of its lowercased, trimmed form when the
  table has one and to that form itself otherwise; the raw list
  \<open>["Onion", "onion", " Onion "]\<close> normalizes to the single token \<open>onion\<close>.
\<close>

theorem normalize_ingredients_set_properties:
  "set (normalize_ingredients (normalize_ingredients x)) = set (normalize_ingredients x)
   \<and> (set x = set y \<longrightarrow> set (normalize_ingredients x) = set (normalize_ingredients y))
   \<and> distinct (normalize_ingredients x)
   \<and> set (normalize_ingredients x) =
       (\<lambda>ing. case map_of INGREDIENT_MAP (strip (lower ing)) of
                 None \<Rightarrow> strip (lower ing) | Some canonical \<Rightarrow> canonical) ` set x
   \<and> normalize_ingredients [''Onion'', ''onion'', '' Onion ''] = [''onion'']"
proof (intro conjI impI)
  show "set (normalize_ingredients (normalize_ingredients x)) = set (normalize_ingredients x)"
    by (simp add: set_normalize_ingredients image_image normalize_one_idem)
  show "set (normalize_ingredients x) = set (normalize_ingredients y)" if "set x = set y"
    using that by (simp add: set_normalize_ingredients)
  show "distinct (normalize_ingredients x)"
    by (rule distinct_normalize_ingredients)
  show "set (normalize_ingredients x) =
       (\<lambda>ing. case map_of INGREDIENT_MAP (strip (lower ing)) of
                 None \<Rightarrow> strip (lower ing) | Some canonical \<Rightarrow> canonical) ` set x"
    by (simp add: set_normalize_ingredients normalize_one_def dict_get_def Let_def)
  show "normalize_ingredients [''Onion'', ''onion'', '' Onion ''] = [''onion'']"
    by code_simp
qed

theorem normalize_ingredients_set_properties_witness:
  "set [''Bell Pepper'', ''Cilantro''] = set [''Cilantro'', ''Bell Pepper'', ''Cilantro'']
   \<and> set (normalize_ingredients [''Bell Pepper'', ''Cilantro''])
       = set (normalize_ingredients [''Cilantro'', ''Bell Pepper'', ''Cilantro''])"
proof -
  have h: "set [''Bell Pepper'', ''Cilantro''] = set [''Cilantro'', ''Bell Pepper'', ''Cilantro'']"
    by auto
  from normalize_ingredients_set_properties
    [of "[''Bell Pepper'', ''Cilantro'']" "[''Cilantro'', ''Bell Pepper'', ''Cilantro'']"] h
  show ?thesis by blast
qed


section \<open>Properties of the best single match\<close>

lemma find_best_loop_Cons:
  "find_best_loop us b bs (r # rest) =
     (if recipe_score us r > bs then find_best_loop us (Some r) (recipe_score us r) rest
      else find_best_loop us b bs rest)"
  by (simp add: recipe_score_def Let_def)

lemma find_best_loop_keeps:
  "\<forall>r\<in>set cat. recipe_score us r \<le> bs \<Longrightarrow> find_best_loop us b bs cat = b"
  by (induction cat) (simp_all add: find_best_loop_Cons del: find_best_loop.simps(2))

lemma find_best_loop_first_max:
  assumes "\<forall>x\<in>set earlier. recipe_score us x < recipe_score us r"
    and "bs < recipe_score us r"
    and "\<forall>x\<in>set later. recipe_score us x \<le> recipe_score us r"
  shows "find_best_loop us b bs (earlier @ r # later) = Some r"
  using assms
proof (induction earlier arbitrary: b bs)
  case Nil
  then show ?case
    by (simp add: find_best_loop_Cons find_best_loop_keeps del: find_best_loop.simps(2))
next
  case (Cons x earlier)
  show ?case
  proof (cases "recipe_score us x > bs")
    case True
    have "find_best_loop us (Some x) (recipe_score us x) (earlier @ r # later) = Some r"
      using Cons.prems by (intro Cons.IH) simp_all
    with True show ?thesis
      by (simp add: find_best_loop_Cons del: find_best_loop.simps(2))
  next
    case False
    have "find_best_loop us b bs (earlier @ r # later) = Some r"
      using Cons.prems by (intro Cons.IH) simp_all
    with False show ?thesis
      by (simp add: find_best_loop_Cons del: find_best_loop.simps(2))
  qed
qed

lemma find_best_loop_result:
  "find_best_loop us b bs cat = Some r \<Longrightarrow> b = Some r \<or> (r \<in> set cat \<and> bs < recipe_score us r)"
proof (induction cat arbitrary: b bs)
  case Nil
  then show ?case by simp
next
  case (Cons x cat)
  show ?case
  proof (cases "recipe_score us x > bs")
    case True
    with Cons.prems have "find_best_loop us (Some x) (recipe_score us x) cat = Some r"
      by (simp add: find_best_loop_Cons del: find_best_loop.simps(2))
    from Cons.IH [OF this] True show ?thesis by auto
  next
    case False
    with Cons.prems have "find_best_loop us b bs cat = Some r"
      by (simp add: find_best_loop_Cons del: find_best_loop.simps(2))
    from Cons.IH [OF this] show ?thesis by auto
  qed
qed

text \<open>
  Claim C2 (as the code has it). On an empty catalog the best single match is null. On any
  catalog a recipe that is returned belongs to the catalog and shares at least one
  ingredient with the user set: a recipe of score 0 is never returned, and when every recipe
  scores 0 the result is null.
\<close>

theorem find_best_recipe_never_score_zero:
  "find_best_recipe [] user = None
   \<and> (find_best_recipe RECIPE_DB user = Some recipe \<longrightarrow>
        recipe \<in> set RECIPE_DB \<and> 0 < recipe_score (py_set user) recipe)
   \<and> ((\<forall>r\<in>set RECIPE_DB. recipe_score (py_set user) r = 0) \<longrightarrow>
        find_best_recipe RECIPE_DB user = None)"
proof (intro conjI impI)
  show "find_best_recipe [] user = None"
    by (simp add: find_best_recipe_def)
  show "recipe \<in> set RECIPE_DB" "0 < recipe_score (py_set user) recipe"
    if "find_best_recipe RECIPE_DB user = Some recipe"
    using find_best_loop_result [of "py_set user" None 0 RECIPE_DB recipe] that
    by (simp_all add: find_best_recipe_def)
  show "find_best_recipe RECIPE_DB user = None"
    if "\<forall>r\<in>set RECIPE_DB. recipe_score (py_set user) r = 0"
    using find_best_loop_keeps [of RECIPE_DB "py_set user" 0 None] that
    by (simp add: find_best_recipe_def)
qed

theorem find_best_recipe_never_score_zero_witness:
  "find_best_recipe [mk_recipe ''Salad'' [''Tomato''], mk_recipe ''Soup'' [''Onion'']] [''onion'']
     = Some (mk_recipe ''Soup'' [''Onion''])
   \<and> mk_recipe ''Soup'' [''Onion'']
       \<in> set [mk_recipe ''Salad'' [''Tomato''], mk_recipe ''Soup'' [''Onion'']]
   \<and> 0 < recipe_score (py_set [''onion'']) (mk_recipe ''Soup'' [''Onion''])
   \<and> recipe_score (py_set [''onion'']) (mk_recipe ''Salad'' [''Tomato'']) = 0
   \<and> find_best_recipe [mk_recipe ''Salad'' [''Tomato'']] [''onion''] = None"
proof -
  have a: "find_best_recipe [mk_recipe ''Salad'' [''Tomato''], mk_recipe ''Soup'' [''Onion'']]
      [''onion''] = Some (mk_recipe ''Soup'' [''Onion''])"
    by code_simp
  have b: "recipe_score (py_set [''onion'']) (mk_recipe ''Salad'' [''Tomato'']) = 0"
    by code_simp
  then have b': "\<forall>r\<in>set [mk_recipe ''Salad'' [''Tomato'']]. recipe_score (py_set [''onion'']) r = 0"
    by simp
  from find_best_recipe_never_score_zero
    [of "[''onion'']" "[mk_recipe ''Salad'' [''Tomato''], mk_recipe ''Soup'' [''Onion'']]"
      "mk_recipe ''Soup'' [''Onion'']"] a
  have c: "mk_recipe ''Soup'' [''Onion'']
       \<in> set [mk_recipe ''Salad'' [''Tomato''], mk_recipe ''Soup'' [''Onion'']]
     \<and> 0 < recipe_score (py_set [''onion'']) (mk_recipe ''Soup'' [''Onion''])"
    by blast
  from find_best_recipe_never_score_zero
    [of "[''onion'']" "[mk_recipe ''Salad'' [''Tomato'']]"] b'
  have d: "find_best_recipe [mk_recipe ''Salad'' [''Tomato'']] [''onion''] = None"
    by blast
  from a b c d show ?thesis by blast
qed

text \<open>
  The statement of C2 in the specification fails: the only recipe of a catalog, which scores
  0 against the user set and is followed by nothing that scores higher, is not returned.
\<close>

theorem find_best_recipe_score_zero_counterexample:
  "recipe_score (py_set [''tomato'']) (mk_recipe ''Soup'' [''Onion'']) = 0
   \<and> find_best_recipe [mk_recipe ''Soup'' [''Onion'']] [''tomato'']
       \<noteq> Some (mk_recipe ''Soup'' [''Onion''])
   \<and> find_best_recipe [mk_recipe ''Soup'' [''Onion'']] [''tomato''] = None"
  by code_simp

text \<open>
  Claim C7 (as the code has it). When a recipe reaches the maximal score of the catalog,
  that score is at least 1, and every recipe before it in catalog order scores strictly
  less, this recipe is returned, whatever number of later recipes reach the same score: a
  later recipe with an equal score does not replace it.
\<close>

theorem find_best_recipe_first_of_ties:
  assumes "RECIPE_DB = earlier @ recipe # later"
    and "0 < recipe_score (py_set user) recipe"
    and "\<forall>r\<in>set earlier. recipe_score (py_set user) r < recipe_score (py_set user) recipe"
    and "\<forall>r\<in>set later. recipe_score (py_set user) r \<le> recipe_score (py_set user) recipe"
  shows "find_best_recipe RECIPE_DB user = Some recipe"
  unfolding find_best_recipe_def assms(1)
  using assms(2-4) by (intro find_best_loop_first_max) simp_all

theorem find_best_recipe_first_of_ties_witness:
  "find_best_recipe
     [mk_recipe ''Salad'' [''Tomato''], mk_recipe ''Soup'' [''Onion'', ''Garlic''],
      mk_recipe ''Curry'' [''Scallion'', ''Garlic'', ''Rice'']]
     [''onion'', ''garlic'', ''tomato'']
   = Some (mk_recipe ''Soup'' [''Onion'', ''Garlic''])
   \<and> recipe_score (py_set [''onion'', ''garlic'', ''tomato'']) (mk_recipe ''Soup'' [''Onion'', ''Garlic''])
     = recipe_score (py_set [''onion'', ''garlic'', ''tomato''])
         (mk_recipe ''Curry'' [''Scallion'', ''Garlic'', ''Rice''])"
proof -
  have h: "[mk_recipe ''Salad'' [''Tomato''], mk_recipe ''Soup'' [''Onion'', ''Garlic''],
      mk_recipe ''Curry'' [''Scallion'', ''Garlic'', ''Rice'']]
    = [mk_recipe ''Salad'' [''Tomato'']] @ mk_recipe ''Soup'' [''Onion'', ''Garlic'']
        # [mk_recipe ''Curry'' [''Scallion'', ''Garlic'', ''Rice'']]"
    by simp
  have s1: "recipe_score (py_set [''onion'', ''garlic'', ''tomato'']) (mk_recipe ''Salad'' [''Tomato'']) = 1"
    by code_simp
  have s2: "recipe_score (py_set [''onion'', ''garlic'', ''tomato''])
      (mk_recipe ''Soup'' [''Onion'', ''Garlic'']) = 2"
    by code_simp
  have s3: "recipe_score (py_set [''onion'', ''garlic'', ''tomato''])
      (mk_recipe ''Curry'' [''Scallion'', ''Garlic'', ''Rice'']) = 2"
    by code_simp
  from find_best_recipe_first_of_ties [OF h] s1 s2 s3
  show ?thesis by simp
qed

text \<open>
  The statement of C7 in the specification fails where the maximal score is 0: two recipes
  tie at the maximal score 0 and the first of them is not returned.
\<close>

theorem find_best_recipe_tie_at_zero_counterexample:
  "recipe_score (py_set [''rice'']) (mk_recipe ''Salad'' [''Tomato'']) = 0
   \<and> recipe_score (py_set [''rice'']) (mk_recipe ''Soup'' [''Onion'']) = 0
   \<and> find_best_recipe [mk_recipe ''Salad'' [''Tomato''], mk_recipe ''Soup'' [''Onion'']] [''rice'']
       \<noteq> Some (mk_recipe ''Salad'' [''Tomato''])"
  by code_simp

section \<open>Properties of the full ranked matching\<close>

lemma distinct_recipe_set_of: "distinct (recipe_set_of r)"
  by (simp add: recipe_set_of_def py_set_def)

lemma length_set_inter: "distinct a \<Longrightarrow> length (set_inter a b) = card (set a \<inter> set b)"
proof -
  assume "distinct a"
  then have "distinct (set_inter a b)" by (simp add: set_inter_def)
  then have "length (set_inter a b) = card (set (set_inter a b))"
    by (simp add: distinct_card)
  also have "set (set_inter a b) = set a \<inter> set b"
    by (auto simp: set_inter_def)
  finally show ?thesis .
qed

lemma length_set_diff: "distinct a \<Longrightarrow> length (set_diff a b) = card (set a - set b)"
proof -
  assume "distinct a"
  then have "distinct (set_diff a b)" by (simp add: set_diff_def)
  then have "length (set_diff a b) = card (set (set_diff a b))"
    by (simp add: distinct_card)
  also have "set (set_diff a b) = set a - set b"
    by (auto simp: set_diff_def)
  finally show ?thesis .
qed

lemma loop_test_iff_spec_included:
  "(length (recipe_set_of r) \<noteq> 0
    \<and> real (length (set_inter (recipe_set_of r) us)) / real (length (recipe_set_of r)) \<ge> 0.6
    \<and> length (set_diff (recipe_set_of r) us) \<le> 1)
   = spec_included (set us) (set (recipe_set_of r))"
proof -
  have "length (recipe_set_of r) = card (set (recipe_set_of r))"
    by (simp add: distinct_card distinct_recipe_set_of)
  moreover have "(card (set (recipe_set_of r)) \<noteq> 0) = (set (recipe_set_of r) \<noteq> {})"
    by simp
  ultimately show ?thesis
    unfolding spec_included_def
    by (simp only: length_set_inter [OF distinct_recipe_set_of]
        length_set_diff [OF distinct_recipe_set_of])
qed

lemma dict_get_difficulty_rank:
  "(case d of None \<Rightarrow> 3 | Some x \<Rightarrow> dict_get difficulty_rank x 3) =
     (if d = Some ''Easy'' then 0
      else if d = Some ''Medium'' then 1
      else if d = Some ''Hard'' then 2
      else (3::nat))"
  by (cases d) (auto simp: dict_get_def difficulty_rank_def)

lemma find_all_loop_Cons:
  "find_all_loop us acc (r # rest) =
     (if spec_included (set us) (set (recipe_set_of r))
      then find_all_loop us (acc @ [candidate_of us r]) rest
      else find_all_loop us acc rest)"
proof (cases "spec_included (set us) (set (recipe_set_of r))")
  case True
  then have t: "length (recipe_set_of r) \<noteq> 0"
    "real (length (set_inter (recipe_set_of r) us)) / real (length (recipe_set_of r)) \<ge> 0.6"
    "length (set_diff (recipe_set_of r) us) \<le> 1"
    using loop_test_iff_spec_included [of r us] by blast+
  show ?thesis
    using True t
    by (simp add: Let_def candidate_of_def dict_get_difficulty_rank get_or_def)
next
  case False
  then have "\<not> (length (recipe_set_of r) \<noteq> 0
    \<and> real (length (set_inter (recipe_set_of r) us)) / real (length (recipe_set_of r)) \<ge> 0.6
    \<and> length (set_diff (recipe_set_of r) us) \<le> 1)"
    using loop_test_iff_spec_included [of r us] by blast
  with False show ?thesis
    by (auto simp: Let_def)
qed

lemma find_all_loop_eq:
  "find_all_loop us acc cat =
     acc @ map (candidate_of us) (filter (\<lambda>r. spec_included (set us) (set (recipe_set_of r))) cat)"
  by (induction cat arbitrary: acc) (simp_all add: find_all_loop_Cons del: find_all_loop.simps(2))

lemma find_all_possible_recipes_eq:
  "find_all_possible_recipes cat u =
     sort_key sort_key_of
       (map (candidate_of (py_set (normalize_ingredients u)))
          (filter (\<lambda>r. spec_included (set (normalize_ingredients u)) (set (recipe_set_of r))) cat))"
  by (simp add: find_all_possible_recipes_def Let_def find_all_loop_eq py_set_def)

text \<open>
  Claim C4. The candidates of the full ranked mode are, with multiplicity, the entries built
  from exactly those catalog recipes that satisfy the inclusion rule of the specification:
  a non-empty normalized ingredient set, a match ratio of at least 0.6 and at most one
  missing ingredient. A recipe of three ingredients of which two are missing is excluded,
  one with a single missing ingredient out of three is included, one with ratio exactly
  0.6 (three of five) is excluded for its two missing ingredients, and a recipe without
  ingredients is skipped.
\<close>

theorem find_all_possible_recipes_inclusion:
  "mset (find_all_possible_recipes RECIPE_DB user) =
     image_mset (candidate_of (py_set (normalize_ingredients user)))
       (filter_mset
          (\<lambda>r. spec_included (set (normalize_ingredients user)) (set (recipe_set_of r)))
          (mset RECIPE_DB))
   \<and> find_all_possible_recipes
        [mk_recipe ''Curry'' [''Rice'', ''Onion'', ''Garlic'']] [''rice''] = []
   \<and> map c_name (find_all_possible_recipes
        [mk_recipe ''Curry'' [''Rice'', ''Onion'', ''Garlic'']] [''rice'', ''onion''])
       = [Some ''Curry'']
   \<and> find_all_possible_recipes
        [mk_recipe ''Stew'' [''Rice'', ''Onion'', ''Garlic'', ''Tomato'', ''Potato'']]
        [''rice'', ''onion'', ''garlic''] = []
   \<and> find_all_possible_recipes [mk_recipe ''Water'' []] [''rice''] = []"
proof (intro conjI)
  show "mset (find_all_possible_recipes RECIPE_DB user) =
     image_mset (candidate_of (py_set (normalize_ingredients user)))
       (filter_mset
          (\<lambda>r. spec_included (set (normalize_ingredients user)) (set (recipe_set_of r)))
          (mset RECIPE_DB))"
    by (simp add: find_all_possible_recipes_eq)
  show "find_all_possible_recipes
        [mk_recipe ''Curry'' [''Rice'', ''Onion'', ''Garlic'']] [''rice''] = []"
    by code_simp
  show "map c_name (find_all_possible_recipes
        [mk_recipe ''Curry'' [''Rice'', ''Onion'', ''Garlic'']] [''rice'', ''onion''])
       = [Some ''Curry'']"
    by code_simp
  show "find_all_possible_recipes
        [mk_recipe ''Stew'' [''Rice'', ''Onion'', ''Garlic'', ''Tomato'', ''Potato'']]
        [''rice'', ''onion'', ''garlic''] = []"
    by code_simp
  show "find_all_possible_recipes [mk_recipe ''Water'' []] [''rice''] = []"
    by code_simp
qed

text \<open>
  A ratio of exactly 0.6 leaves two fifths of the recipe set missing, so it never comes
  with exactly one missing ingredient.
\<close>

lemma ratio_exactly_point_six_not_one_missing:
  assumes "finite R" and "real (card (R \<inter> U)) / real (card R) = 0.6"
  shows "card (R - U) \<noteq> 1"
proof
  assume one: "card (R - U) = 1"
  have split: "card R = card (R \<inter> U) + card (R - U)"
    using assms(1) by (metis Int_Diff_Un Int_Diff_disjoint card_Un_disjoint finite_Diff finite_Int)
  have "card R \<noteq> 0"
  proof
    assume "card R = 0"
    with assms(2) show False by simp
  qed
  then have "real (card (R \<inter> U)) * 10 = 6 * real (card R)"
    using assms(2) by (simp add: field_simps)
  then have "card (R \<inter> U) * 10 = 6 * card R"
    by (metis (mono_tags, opaque_lifting) of_nat_eq_iff of_nat_mult of_nat_numeral)
  with split one show False by presburger
qed


text \<open>
  Claim C5. The list returned by the full ranked mode is sorted in ascending order of the
  triple (missing count, difficulty rank, time or 999), where the rank of each entry is 0 for
  Easy, 1 for Medium, 2 for Hard and 3 for anything else or an absent difficulty, and an
  absent or zero time counts as 999; entries with the same triple stand in catalog order.
\<close>

theorem find_all_possible_recipes_sorted_stable:
  "sorted (map (\<lambda>x. (c_missing_count x, c_difficulty_rank x,
                      (case c_time x of None \<Rightarrow> 999 | Some t \<Rightarrow> if t = 0 then 999 else t)))
             (find_all_possible_recipes RECIPE_DB user))
   \<and> (\<forall>x\<in>set (find_all_possible_recipes RECIPE_DB user).
         c_difficulty_rank x =
           (if c_difficulty x = Some ''Easy'' then 0
            else if c_difficulty x = Some ''Medium'' then 1
            else if c_difficulty x = Some ''Hard'' then 2
            else 3)
         \<and> c_missing_count x = length (c_missing x))
   \<and> filter (\<lambda>x. (c_missing_count x, c_difficulty_rank x,
                    (case c_time x of None \<Rightarrow> 999 | Some t \<Rightarrow> if t = 0 then 999 else t)) = k)
        (find_all_possible_recipes RECIPE_DB user)
      = filter (\<lambda>x. (c_missing_count x, c_difficulty_rank x,
                    (case c_time x of None \<Rightarrow> 999 | Some t \<Rightarrow> if t = 0 then 999 else t)) = k)
          (map (candidate_of (py_set (normalize_ingredients user)))
             (filter
                (\<lambda>r. spec_included (set (normalize_ingredients user)) (set (recipe_set_of r)))
                RECIPE_DB))"
proof -
  have key: "(\<lambda>x. (c_missing_count x, c_difficulty_rank x,
                (case c_time x of None \<Rightarrow> 999 | Some t \<Rightarrow> if t = 0 then 999 else t)))
             = sort_key_of"
    by (rule ext) (simp add: sort_key_of_def)
  have rank: "c_difficulty_rank x =
           (if c_difficulty x = Some ''Easy'' then 0
            else if c_difficulty x = Some ''Medium'' then 1
            else if c_difficulty x = Some ''Hard'' then 2
            else 3)
         \<and> c_missing_count x = length (c_missing x)"
    if "x \<in> set (find_all_possible_recipes RECIPE_DB user)" for x
  proof -
    from that obtain r where "x = candidate_of (py_set (normalize_ingredients user)) r"
      by (auto simp: find_all_possible_recipes_eq)
    then show ?thesis by (simp add: candidate_of_def)
  qed
  have sorted_part: "sorted (map sort_key_of (find_all_possible_recipes RECIPE_DB user))"
    by (simp add: find_all_possible_recipes_eq)
  have stable_part: "filter (\<lambda>x. sort_key_of x = k) (find_all_possible_recipes RECIPE_DB user)
      = filter (\<lambda>x. sort_key_of x = k)
          (map (candidate_of (py_set (normalize_ingredients user)))
             (filter
                (\<lambda>r. spec_included (set (normalize_ingredients user)) (set (recipe_set_of r)))
                RECIPE_DB))"
    unfolding find_all_possible_recipes_eq by (rule sort_key_stable)
  show ?thesis
  proof (intro conjI ballI)
    show "sorted (map (\<lambda>x. (c_missing_count x, c_difficulty_rank x,
                      (case c_time x of None \<Rightarrow> 999 | Some t \<Rightarrow> if t = 0 then 999 else t)))
             (find_all_possible_recipes RECIPE_DB user))"
      using sorted_part unfolding key .
    show "filter (\<lambda>x. (c_missing_count x, c_difficulty_rank x,
                    (case c_time x of None \<Rightarrow> 999 | Some t \<Rightarrow> if t = 0 then 999 else t)) = k)
        (find_all_possible_recipes RECIPE_DB user)
      = filter (\<lambda>x. (c_missing_count x, c_difficulty_rank x,
                    (case c_time x of None \<Rightarrow> 999 | Some t \<Rightarrow> if t = 0 then 999 else t)) = k)
          (map (candidate_of (py_set (normalize_ingredients user)))
             (filter
                (\<lambda>r. spec_included (set (normalize_ingredients user)) (set (recipe_set_of r)))
                RECIPE_DB))"
      using stable_part unfolding sort_key_of_def .
  qed (use rank in blast)+
qed

theorem find_all_possible_recipes_sorted_stable_witness:
  "map c_name (find_all_possible_recipes
     [mk_timed_recipe ''C'' [''Rice'', ''Onion'', ''Tomato''] (Some ''Easy'') None,
      mk_timed_recipe ''D'' [''Garlic''] (Some ''Hard'') (Some 30),
      mk_timed_recipe ''B'' [''Onion''] (Some ''Easy'') (Some 10),
      mk_timed_recipe ''A'' [''Rice''] (Some ''Hard'') (Some 30),
      mk_timed_recipe ''E'' [''Rice''] (Some ''Tricky'') (Some 0)]
     [''rice'', ''onion'', ''garlic''])
   = [Some ''B'', Some ''D'', Some ''A'', Some ''E'', Some ''C'']
   \<and> map (\<lambda>x. (c_missing_count x, c_difficulty_rank x,
                      (case c_time x of None \<Rightarrow> 999 | Some t \<Rightarrow> if t = 0 then 999 else t)))
       (find_all_possible_recipes
     [mk_timed_recipe ''C'' [''Rice'', ''Onion'', ''Tomato''] (Some ''Easy'') None,
      mk_timed_recipe ''D'' [''Garlic''] (Some ''Hard'') (Some 30),
      mk_timed_recipe ''B'' [''Onion''] (Some ''Easy'') (Some 10),
      mk_timed_recipe ''A'' [''Rice''] (Some ''Hard'') (Some 30),
      mk_timed_recipe ''E'' [''Rice''] (Some ''Tricky'') (Some 0)]
     [''rice'', ''onion'', ''garlic''])
     = [(0, 0, 10), (0, 2, 30), (0, 2, 30), (0, 3, 999), (1, 0, 999)]
   \<and> sorted (map (\<lambda>x. (c_missing_count x, c_difficulty_rank x,
                      (case c_time x of None \<Rightarrow> 999 | Some t \<Rightarrow> if t = 0 then 999 else t)))
       (find_all_possible_recipes
     [mk_timed_recipe ''C'' [''Rice'', ''Onion'', ''Tomato''] (Some ''Easy'') None,
      mk_timed_recipe ''D'' [''Garlic''] (Some ''Hard'') (Some 30),
      mk_timed_recipe ''B'' [''Onion''] (Some ''Easy'') (Some 10),
      mk_timed_recipe ''A'' [''Rice''] (Some ''Hard'') (Some 30),
      mk_timed_recipe ''E'' [''Rice''] (Some ''Tricky'') (Some 0)]
     [''rice'', ''onion'', ''garlic'']))"
proof -
  have a: "map c_name (find_all_possible_recipes
     [mk_timed_recipe ''C'' [''Rice'', ''Onion'', ''Tomato''] (Some ''Easy'') None,
      mk_timed_recipe ''D'' [''Garlic''] (Some ''Hard'') (Some 30),
      mk_timed_recipe ''B'' [''Onion''] (Some ''Easy'') (Some 10),
      mk_timed_recipe ''A'' [''Rice''] (Some ''Hard'') (Some 30),
      mk_timed_recipe ''E'' [''Rice''] (Some ''Tricky'') (Some 0)]
     [''rice'', ''onion'', ''garlic''])
   = [Some ''B'', Some ''D'', Some ''A'', Some ''E'', Some ''C'']"
    by code_simp
  have b: "map (\<lambda>x. (c_missing_count x, c_difficulty_rank x,
                      (case c_time x of None \<Rightarrow> 999 | Some t \<Rightarrow> if t = 0 then 999 else t)))
       (find_all_possible_recipes
     [mk_timed_recipe ''C'' [''Rice'', ''Onion'', ''Tomato''] (Some ''Easy'') None,
      mk_timed_recipe ''D'' [''Garlic''] (Some ''Hard'') (Some 30),
      mk_timed_recipe ''B'' [''Onion''] (Some ''Easy'') (Some 10),
      mk_timed_recipe ''A'' [''Rice''] (Some ''Hard'') (Some 30),
      mk_timed_recipe ''E'' [''Rice''] (Some ''Tricky'') (Some 0)]
     [''rice'', ''onion'', ''garlic''])
     = [(0, 0, 10), (0, 2, 30), (0, 2, 30), (0, 3, 999), (1, 0, 999)]"
    by code_simp
  from a b find_all_possible_recipes_sorted_stable
    [of "[mk_timed_recipe ''C'' [''Rice'', ''Onion'', ''Tomato''] (Some ''Easy'') None,
      mk_timed_recipe ''D'' [''Garlic''] (Some ''Hard'') (Some 30),
      mk_timed_recipe ''B'' [''Onion''] (Some ''Easy'') (Some 10),
      mk_timed_recipe ''A'' [''Rice''] (Some ''Hard'') (Some 30),
      mk_timed_recipe ''E'' [''Rice''] (Some ''Tricky'') (Some 0)]"
      "[''rice'', ''onion'', ''garlic'']"]
  show ?thesis by blast
qed

lemma set_normalize_twice:
  "set (normalize_ingredients (normalize_ingredients x)) = set (normalize_ingredients x)"
  by (simp add: set_normalize_ingredients image_image normalize_one_idem)

text \<open>
  Claim C8. When no recipe of the catalog satisfies the inclusion rule for the normalized
  ingredients of the request, the dish options are exactly the one synthetic dish
  "Quick Kitchen Stir Fry" (Easy, 15 minutes, 250 calories, nothing missing, flagged as
  generated) with count 1; in every case the list of dishes is not empty and the count is
  its length.
\<close>

theorem get_dish_options_fallback:
  "((\<forall>r\<in>set RECIPE_DB.
        \<not> spec_included (set (normalize_ingredients (get_or (q_ingredients data) [])))
            (set (recipe_set_of r)))
     \<longrightarrow> get_dish_options RECIPE_DB data =
          \<lparr>count = 1,
           dishes = [Generated \<lparr>g_name = ''Quick Kitchen Stir Fry'', g_difficulty = ''Easy'',
                       g_time = 15, g_calories = 250, g_missing = [],
                       g_ai_generated = True\<rparr>]\<rparr>)
   \<and> dishes (get_dish_options RECIPE_DB data) \<noteq> []
   \<and> count (get_dish_options RECIPE_DB data) = length (dishes (get_dish_options RECIPE_DB data))"
proof (intro conjI impI)
  assume none: "\<forall>r\<in>set RECIPE_DB.
        \<not> spec_included (set (normalize_ingredients (get_or (q_ingredients data) [])))
            (set (recipe_set_of r))"
  then have "filter (\<lambda>r. spec_included
        (set (normalize_ingredients (get_or (q_ingredients data) []))) (set (recipe_set_of r)))
      RECIPE_DB = []"
    by (simp add: filter_empty_conv)
  then have "find_all_possible_recipes RECIPE_DB
      (normalize_ingredients (get_or (q_ingredients data) [])) = []"
    by (simp add: find_all_possible_recipes_eq set_normalize_twice)
  then show "get_dish_options RECIPE_DB data =
          \<lparr>count = 1,
           dishes = [Generated \<lparr>g_name = ''Quick Kitchen Stir Fry'', g_difficulty = ''Easy'',
                       g_time = 15, g_calories = 250, g_missing = [],
                       g_ai_generated = True\<rparr>]\<rparr>"
    by (simp add: get_dish_options_def Let_def)
next
  show "dishes (get_dish_options RECIPE_DB data) \<noteq> []"
    by (simp add: get_dish_options_def Let_def)
  show "count (get_dish_options RECIPE_DB data) = length (dishes (get_dish_options RECIPE_DB data))"
    by (simp add: get_dish_options_def Let_def)
qed

theorem get_dish_options_fallback_witness:
  "\<not> spec_included
        (set (normalize_ingredients (get_or (q_ingredients \<lparr>q_ingredients = Some [''Rice'']\<rparr>) [])))
        (set (recipe_set_of (mk_recipe ''Curry'' [''Rice'', ''Onion'', ''Garlic''])))
   \<and> \<not> spec_included
        (set (normalize_ingredients (get_or (q_ingredients \<lparr>q_ingredients = Some [''Rice'']\<rparr>) [])))
        (set (recipe_set_of (mk_recipe ''Water'' [])))
   \<and> get_dish_options [mk_recipe ''Curry'' [''Rice'', ''Onion'', ''Garlic''], mk_recipe ''Water'' []]
       \<lparr>q_ingredients = Some [''Rice'']\<rparr>
     = \<lparr>count = 1,
        dishes = [Generated \<lparr>g_name = ''Quick Kitchen Stir Fry'', g_difficulty = ''Easy'',
                    g_time = 15, g_calories = 250, g_missing = [],
                    g_ai_generated = True\<rparr>]\<rparr>"
proof -
  have h1: "\<not> spec_included
        (set (normalize_ingredients (get_or (q_ingredients \<lparr>q_ingredients = Some [''Rice'']\<rparr>) [])))
        (set (recipe_set_of (mk_recipe ''Curry'' [''Rice'', ''Onion'', ''Garlic''])))"
    by code_simp
  have h2: "\<not> spec_included
        (set (normalize_ingredients (get_or (q_ingredients \<lparr>q_ingredients = Some [''Rice'']\<rparr>) [])))
        (set (recipe_set_of (mk_recipe ''Water'' [])))"
    by code_simp
  from h1 h2
  have h: "\<forall>r\<in>set [mk_recipe ''Curry'' [''Rice'', ''Onion'', ''Garlic''], mk_recipe ''Water'' []].
        \<not> spec_included
            (set (normalize_ingredients (get_or (q_ingredients \<lparr>q_ingredients = Some [''Rice'']\<rparr>) [])))
            (set (recipe_set_of r))"
    by simp
  from h1 h2 h get_dish_options_fallback
    [of "[mk_recipe ''Curry'' [''Rice'', ''Onion'', ''Garlic''], mk_recipe ''Water'' []]"
      "\<lparr>q_ingredients = Some [''Rice'']\<rparr>"]
  show ?thesis by blast
qed

section \<open>Properties of the recipe assembly\<close>

lemma timed_steps_loop_eq:
  "timed_steps_loop acc steps =
     acc @ concat (map (\<lambda>step. case step of
                          StepDict text time \<Rightarrow>
                            [\<lparr>ts_description = text,
                              ts_time = (case time of None \<Rightarrow> 5 | Some t \<Rightarrow> t)\<rparr>]
                        | StepOther other \<Rightarrow> [])
                   steps)"
  by (induction acc steps rule: timed_steps_loop.induct) (simp_all add: get_or_def)

text \<open>
  Claim C9. The steps of an assembled recipe are the projections of the structured step
  records of the resolved recipe, in order, each with duration 5 where the record has none;
  entries that are not records are dropped; and the total time is the sum of the durations
  of these projected steps.
\<close>

theorem generate_recipe_steps_default_and_total:
  "rs_steps (generate_recipe RECIPE_DB data) =
     concat (map (\<lambda>step. case step of
                     StepDict text time \<Rightarrow>
                       [\<lparr>ts_description = text,
                         ts_time = (case time of None \<Rightarrow> 5 | Some t \<Rightarrow> t)\<rparr>]
                   | StepOther other \<Rightarrow> [])
              (case r_steps (resolve_recipe RECIPE_DB data) of None \<Rightarrow> [] | Some steps \<Rightarrow> steps))
   \<and> rs_total_time (generate_recipe RECIPE_DB data)
       = sum_list (map ts_time (rs_steps (generate_recipe RECIPE_DB data)))
   \<and> generate_recipe
        [mk_stepped_recipe ''Dal'' [''Lentil'']
           [StepDict (Some ''Rinse'') None, StepOther ''Stir'',
            StepDict (Some ''Boil'') (Some 12), StepDict None None]]
        \<lparr>rq_ingredients = None, rq_selected_dish = Some '' dal ''\<rparr>
       = \<lparr>rs_name = Some ''Dal'', rs_ingredients = Some [''Lentil''], rs_calories = None,
          rs_difficulty = None,
          rs_steps = [\<lparr>ts_description = Some ''Rinse'', ts_time = 5\<rparr>,
                      \<lparr>ts_description = Some ''Boil'', ts_time = 12\<rparr>,
                      \<lparr>ts_description = None, ts_time = 5\<rparr>],
          rs_total_time = 22\<rparr>"
proof (intro conjI)
  show "rs_steps (generate_recipe RECIPE_DB data) =
     concat (map (\<lambda>step. case step of
                     StepDict text time \<Rightarrow>
                       [\<lparr>ts_description = text,
                         ts_time = (case time of None \<Rightarrow> 5 | Some t \<Rightarrow> t)\<rparr>]
                   | StepOther other \<Rightarrow> [])
              (case r_steps (resolve_recipe RECIPE_DB data) of None \<Rightarrow> [] | Some steps \<Rightarrow> steps))"
    by (simp add: generate_recipe_def Let_def timed_steps_loop_eq get_or_def)
  show "rs_total_time (generate_recipe RECIPE_DB data)
       = sum_list (map ts_time (rs_steps (generate_recipe RECIPE_DB data)))"
    by (simp add: generate_recipe_def Let_def)
  show "generate_recipe
        [mk_stepped_recipe ''Dal'' [''Lentil'']
           [StepDict (Some ''Rinse'') None, StepOther ''Stir'',
            StepDict (Some ''Boil'') (Some 12), StepDict None None]]
        \<lparr>rq_ingredients = None, rq_selected_dish = Some '' dal ''\<rparr>
       = \<lparr>rs_name = Some ''Dal'', rs_ingredients = Some [''Lentil''], rs_calories = None,
          rs_difficulty = None,
          rs_steps = [\<lparr>ts_description = Some ''Rinse'', ts_time = 5\<rparr>,
                      \<lparr>ts_description = Some ''Boil'', ts_time = 12\<rparr>,
                      \<lparr>ts_description = None, ts_time = 5\<rparr>],
          rs_total_time = 22\<rparr>"
    by code_simp
qed

lemma find_None_iff: "(find P xs = None) = (\<forall>x\<in>set xs. \<not> P x)"
  by (induction xs) simp_all

text \<open>
  Claim C10. When a non-empty dish name is supplied and no catalog recipe has that name
  (compared without case after trimming), the assembled recipe is the default
  "Custom Dish" with the normalized ingredients of the request, 220 calories, difficulty
  Easy and the single step "Cook everything well" of 10 minutes. With a name supplied the
  resolved recipe depends on the recipes of that name only, so the best single match takes
  no part; in the witness it would have found a recipe.
\<close>

theorem generate_recipe_unmatched_name_custom_dish:
  assumes "rq_selected_dish data = Some selected"
    and "selected \<noteq> []"
  shows "((\<forall>r\<in>set RECIPE_DB.
            lower (strip (case r_name r of None \<Rightarrow> [] | Some n \<Rightarrow> n)) \<noteq> lower (strip selected))
          \<longrightarrow> generate_recipe RECIPE_DB data =
               \<lparr>rs_name = Some ''Custom Dish'',
                rs_ingredients =
                  Some (normalize_ingredients
                          (case rq_ingredients data of None \<Rightarrow> [] | Some i \<Rightarrow> i)),
                rs_calories = Some 220,
                rs_difficulty = Some ''Easy'',
                rs_steps = [\<lparr>ts_description = Some ''Cook everything well'', ts_time = 10\<rparr>],
                rs_total_time = 10\<rparr>)
       \<and> resolve_recipe RECIPE_DB data =
           resolve_recipe (filter (\<lambda>r. lower (strip (case r_name r of None \<Rightarrow> [] | Some n \<Rightarrow> n))
                                        = lower (strip selected)) RECIPE_DB) data"
proof (intro conjI impI)
  assume none: "\<forall>r\<in>set RECIPE_DB.
            lower (strip (case r_name r of None \<Rightarrow> [] | Some n \<Rightarrow> n)) \<noteq> lower (strip selected)"
  then have "find (\<lambda>r. lower (strip (get_or (r_name r) [])) = lower (strip selected)) RECIPE_DB = None"
    by (simp add: find_None_iff get_or_def)
  with assms show "generate_recipe RECIPE_DB data =
               \<lparr>rs_name = Some ''Custom Dish'',
                rs_ingredients =
                  Some (normalize_ingredients
                          (case rq_ingredients data of None \<Rightarrow> [] | Some i \<Rightarrow> i)),
                rs_calories = Some 220,
                rs_difficulty = Some ''Easy'',
                rs_steps = [\<lparr>ts_description = Some ''Cook everything well'', ts_time = 10\<rparr>],
                rs_total_time = 10\<rparr>"
    by (simp add: generate_recipe_def resolve_recipe_def Let_def get_or_def)
next
  have "find P (filter P xs) = find P xs" for P :: "recipe \<Rightarrow> bool" and xs
    by (induction xs) simp_all
  with assms show "resolve_recipe RECIPE_DB data =
           resolve_recipe (filter (\<lambda>r. lower (strip (case r_name r of None \<Rightarrow> [] | Some n \<Rightarrow> n))
                                        = lower (strip selected)) RECIPE_DB) data"
    by (simp add: resolve_recipe_def Let_def get_or_def)
qed

theorem generate_recipe_unmatched_name_custom_dish_witness:
  "find_best_recipe [mk_recipe ''Soup'' [''Onion'']] (normalize_ingredients [''Onion''])
     = Some (mk_recipe ''Soup'' [''Onion''])
   \<and> generate_recipe [mk_recipe ''Soup'' [''Onion'']]
        \<lparr>rq_ingredients = Some [''Onion''], rq_selected_dish = Some ''Pizza''\<rparr>
     = \<lparr>rs_name = Some ''Custom Dish'',
        rs_ingredients = Some [''onion''],
        rs_calories = Some 220,
        rs_difficulty = Some ''Easy'',
        rs_steps = [\<lparr>ts_description = Some ''Cook everything well'', ts_time = 10\<rparr>],
        rs_total_time = 10\<rparr>"
proof -
  have best: "find_best_recipe [mk_recipe ''Soup'' [''Onion'']] (normalize_ingredients [''Onion''])
     = Some (mk_recipe ''Soup'' [''Onion''])"
    by code_simp
  have sel: "rq_selected_dish \<lparr>rq_ingredients = Some [''Onion''], rq_selected_dish = Some ''Pizza''\<rparr>
      = Some ''Pizza''"
    and ne: "''Pizza'' \<noteq> []"
    by simp_all
  have name: "lower (strip (case r_name (mk_recipe ''Soup'' [''Onion'']) of None \<Rightarrow> [] | Some n \<Rightarrow> n))
      \<noteq> lower (strip ''Pizza'')"
    by code_simp
  then have unmatched: "\<forall>r\<in>set [mk_recipe ''Soup'' [''Onion'']].
      lower (strip (case r_name r of None \<Rightarrow> [] | Some n \<Rightarrow> n)) \<noteq> lower (strip ''Pizza'')"
    by simp
  have ings: "normalize_ingredients
      (case rq_ingredients \<lparr>rq_ingredients = Some [''Onion''], rq_selected_dish = Some ''Pizza''\<rparr>
       of None \<Rightarrow> [] | Some i \<Rightarrow> i) = [''onion'']"
    by code_simp
  from generate_recipe_unmatched_name_custom_dish [OF sel ne, of "[mk_recipe ''Soup'' [''Onion'']]"]
    unmatched
  have "generate_recipe [mk_recipe ''Soup'' [''Onion'']]
        \<lparr>rq_ingredients = Some [''Onion''], rq_selected_dish = Some ''Pizza''\<rparr>
     = \<lparr>rs_name = Some ''Custom Dish'',
        rs_ingredients = Some (normalize_ingredients
          (case rq_ingredients \<lparr>rq_ingredients = Some [''Onion''], rq_selected_dish = Some ''Pizza''\<rparr>
           of None \<Rightarrow> [] | Some i \<Rightarrow> i)),
        rs_calories = Some 220,
        rs_difficulty = Some ''Easy'',
        rs_steps = [\<lparr>ts_description = Some ''Cook everything well'', ts_time = 10\<rparr>],
        rs_total_time = 10\<rparr>"
    by blast
  with best show ?thesis unfolding ings by simp
qed


section \<open>Properties of deleting a memory\<close>

lemma pop_at_take_drop: "k < length xs \<Longrightarrow> pop_at k xs = take k xs @ drop (Suc k) xs"
  by (induction k xs rule: pop_at.induct) simp_all

lemma list_pop_in_range:
  "0 \<le> i \<Longrightarrow> i < int (length xs) \<Longrightarrow>
   list_pop xs i = Inr (take (nat i) xs @ drop (Suc (nat i)) xs)"
  by (simp add: list_pop_def Let_def pop_at_take_drop)

text \<open>
  Claim C3. For a logged-in session with a memory list of length \<open>n\<close> and a requested
  index \<open>i\<close>: when \<open>0 \<le> i < n\<close> the stored list loses exactly its element at position
  \<open>n - 1 - i\<close>, the elements before and after it staying as they are and in order; for any
  other index the list is stored back unchanged and the request succeeds.
\<close>

theorem delete_memory_most_recent_first:
  assumes "user_id sess \<noteq> None"
    and "memories sess = Some mems"
  shows "if 0 \<le> index \<and> index < int (length mems)
         then mems = take (length mems - 1 - nat index) mems
                       @ mems ! (length mems - 1 - nat index)
                       # drop (length mems - nat index) mems
              \<and> delete_memory sess index =
                  Inr (Deleted,
                       sess\<lparr>memories :=
                              Some (take (length mems - 1 - nat index) mems
                                      @ drop (length mems - nat index) mems)\<rparr>)
         else delete_memory sess index = Inr (Deleted, sess\<lparr>memories := Some mems\<rparr>)"
proof (cases "0 \<le> index \<and> index < int (length mems)")
  case True
  define k where "k = length mems - 1 - nat index"
  from True have k: "k < length mems" "int k = int (length mems) - 1 - index"
    "Suc k = length mems - nat index"
    by (auto simp: k_def)
  have split: "mems = take k mems @ mems ! k # drop (Suc k) mems"
    using k(1) by (rule id_take_nth_drop)
  have nk: "nat (int (length mems) - 1 - index) = k"
    using True by (simp add: k_def nat_diff_distrib)
  have "list_pop mems (int (length mems) - 1 - index) = Inr (take k mems @ drop (Suc k) mems)"
    using list_pop_in_range [of "int (length mems) - 1 - index" mems] True
    unfolding nk by simp
  with True assms have "delete_memory sess index =
      Inr (Deleted, sess\<lparr>memories := Some (take k mems @ drop (Suc k) mems)\<rparr>)"
    by (simp add: delete_memory_def Let_def get_or_def)
  then have del: "delete_memory sess index =
      Inr (Deleted,
           sess\<lparr>memories := Some (take k mems @ drop (length mems - nat index) mems)\<rparr>)"
    unfolding k(3) .
  from split have split': "mems = take k mems @ mems ! k # drop (length mems - nat index) mems"
    unfolding k(3) .
  from True split' del show ?thesis
    unfolding k_def by simp
next
  case False
  with assms show ?thesis
    by (auto simp: delete_memory_def Let_def get_or_def)
qed

theorem delete_memory_most_recent_first_witness:
  "delete_memory
     \<lparr>user_id = Some 1,
      memories = Some [mk_memory ''m0'' None None None, mk_memory ''m1'' None None None,
                       mk_memory ''m2'' None None None]\<rparr> 0
   = Inr (Deleted,
          \<lparr>user_id = Some 1,
           memories = Some [mk_memory ''m0'' None None None, mk_memory ''m1'' None None None]\<rparr>)
   \<and> delete_memory
     \<lparr>user_id = Some 1,
      memories = Some [mk_memory ''m0'' None None None, mk_memory ''m1'' None None None,
                       mk_memory ''m2'' None None None]\<rparr> 5
   = Inr (Deleted,
          \<lparr>user_id = Some 1,
           memories = Some [mk_memory ''m0'' None None None, mk_memory ''m1'' None None None,
                       mk_memory ''m2'' None None None]\<rparr>)
   \<and> delete_memory
     \<lparr>user_id = Some 1,
      memories = Some [mk_memory ''m0'' None None None, mk_memory ''m1'' None None None,
                       mk_memory ''m2'' None None None]\<rparr> (- 1)
   = Inr (Deleted,
          \<lparr>user_id = Some 1,
           memories = Some [mk_memory ''m0'' None None None, mk_memory ''m1'' None None None,
                       mk_memory ''m2'' None None None]\<rparr>)"
proof -
  let ?s = "\<lparr>user_id = Some 1,
      memories = Some [mk_memory ''m0'' None None None, mk_memory ''m1'' None None None,
                       mk_memory ''m2'' None None None]\<rparr>"
  let ?ms = "[mk_memory ''m0'' None None None, mk_memory ''m1'' None None None,
                       mk_memory ''m2'' None None None]"
  have u: "user_id ?s \<noteq> None" and m: "memories ?s = Some ?ms" by simp_all
  from delete_memory_most_recent_first [OF u m, of 0]
  have a: "delete_memory ?s 0 = Inr (Deleted,
          \<lparr>user_id = Some 1,
           memories = Some [mk_memory ''m0'' None None None, mk_memory ''m1'' None None None]\<rparr>)"
    by simp
  from delete_memory_most_recent_first [OF u m, of 5]
  have b: "delete_memory ?s 5 = Inr (Deleted, ?s)"
    by simp
  from delete_memory_most_recent_first [OF u m, of "- 1"]
  have c: "delete_memory ?s (- 1) = Inr (Deleted, ?s)"
    by simp
  from a b c show ?thesis by simp
qed

section \<open>Properties of the analytics\<close>

text \<open>
  A memory whose timestamp is a non-empty text that \<open>strptime\<close> rejects makes the loop, and
  with it the handler, end in an exception, wherever the memory stands in the list.
\<close>

lemma analytics_loop_unparsable:
  assumes "mem \<in> set mems"
    and "mem_cooked_at mem = Some ts"
    and "ts \<noteq> []"
    and "strptime ts = Inl e"
  shows "\<exists>e'. analytics_loop st mems = Inl e'"
  using assms(1)
proof (induction mems arbitrary: st)
  case Nil
  then show ?case by simp
next
  case (Cons m rest)
  show ?case
  proof (cases "m = mem")
    case True
    with assms(2-4) show ?thesis
      by (simp add: Let_def get_or_def)
  next
    case False
    with Cons.prems have "mem \<in> set rest" by simp
    then have IH: "\<exists>e'. analytics_loop st' rest = Inl e'" for st'
      by (rule Cons.IH)
    show ?thesis
      using IH by (simp add: Let_def split: sum.splits option.splits)
  qed
qed

lemma analytics_data_unparsable:
  assumes "memories sess = Some mems"
    and "mem \<in> set mems"
    and "mem_cooked_at mem = Some ts"
    and "ts \<noteq> []"
    and "strptime ts = Inl e"
  shows "\<exists>e'. analytics_data sess = Inl e'"
proof -
  from analytics_loop_unparsable [OF assms(2-5)]
  obtain e' where "analytics_loop
      \<lparr>total_calories = 0, ingredient_counter = [], weekly_calories = replicate 7 0\<rparr> mems
      = Inl e'"
    by blast
  with assms(1) show ?thesis
    by (simp add: analytics_data_def)
qed

text \<open>The timestamps, calories and weekday buckets of the inputs evaluated below.\<close>

lemma strptime_4_nov_2026:
  "strptime ''04 Nov 2026, 01:50 AM''
     = Inr \<lparr>dt_year = 2026, dt_month = 11, dt_day = 4, dt_hour = 1, dt_minute = 50\<rparr>"
  by code_simp

lemma weekday_4_nov_2026:
  "weekday \<lparr>dt_year = 2026, dt_month = 11, dt_day = 4, dt_hour = h, dt_minute = mi\<rparr> = 2"
  by (simp add: weekday_def toordinal_def days_before_year_def days_before_month_def
      days_in_month_def is_leap_def Let_def)

lemma strptime_iso_text: "strptime ''2026-11-04 01:50'' = Inl ValueError"
  by code_simp

lemma py_int_examples:
  "py_int ''120'' = Inr 120" "py_int ''60'' = Inr 60" "py_int ''80'' = Inr 80"
  "py_int ''abc'' = Inl ValueError"
  by code_simp+

lemma week_buckets:
  "replicate 7 (0::int) = [0, 0, 0, 0, 0, 0, 0]"
  "[a, b, c, d, e, f, g][2 := x] = [a, b, x, d, e, f, g]"
  "[a, b, c, d, e, f, g] ! 2 = c"
  by (simp_all add: numeral_eq_Suc)

text \<open>
  Claim C1, evaluated on the code. A memory without a timestamp adds its coerced calories
  (0 for the unreadable value \<open>abc\<close>) to the total, is counted, and enters no weekday bucket,
  and the aggregation completes. A memory whose timestamp does not parse under the fixed
  format does not behave so: \<open>strptime\<close> raises \<open>ValueError\<close> outside any \<open>try\<close>, and the
  whole aggregation ends with that exception instead of a summary.
\<close>

theorem analytics_data_unparsable_timestamp_aborts:
  "analytics_data
     \<lparr>user_id = Some 1,
      memories = Some
        [mk_memory ''Soup'' (Some ''120'') (Some [''onion'', ''garlic''])
           (Some ''04 Nov 2026, 01:50 AM''),
         mk_memory ''Salad'' (Some ''abc'') (Some [''onion'']) None,
         mk_memory ''Rice'' (Some ''80'') (Some [''rice'']) None]\<rparr>
   = Inr \<lparr>totalCalories = 200, totalRecipes = 3, topIngredient = ''onion'',
          weeklyCalories = [0, 0, 120, 0, 0, 0, 0],
          ingredientLabels = [''onion'', ''garlic'', ''rice''],
          ingredientCounts = [2, 1, 1]\<rparr>
   \<and> strptime ''2026-11-04 01:50'' = Inl ValueError
   \<and> analytics_data
     \<lparr>user_id = Some 1,
      memories = Some
        [mk_memory ''Soup'' (Some ''120'') (Some [''onion'', ''garlic''])
           (Some ''04 Nov 2026, 01:50 AM''),
         mk_memory ''Salad'' (Some ''60'') (Some [''onion'']) (Some ''2026-11-04 01:50''),
         mk_memory ''Rice'' (Some ''80'') (Some [''rice'']) None]\<rparr>
   = Inl ValueError"
  by (simp add: analytics_data_def mk_memory_def Let_def get_or_def most_common_1_def
      strptime_4_nov_2026 weekday_4_nov_2026 strptime_iso_text py_int_examples
      week_buckets)

end
